theory Spec2Isabelle
  imports Main "HOL-Library.Sublist"
begin

section \<open>JavaScript values used by src/tools.ts\<close>

text \<open>
  Strings are modelled as \<^typ>\<open>string\<close>: one \<^typ>\<open>char\<close> stands for one code unit of
  the JavaScript string. Every string operation the source uses (concatenation,
  \<^verbatim>\<open>includes\<close>, \<^verbatim>\<open>endsWith\<close>, \<^verbatim>\<open>split\<close>, \<^verbatim>\<open>length\<close>, \<^verbatim>\<open>===\<close>) works code unit by code
  unit, so none of them depends on the size of the alphabet.
\<close>

text \<open>A value thrown by a library call: an \<^verbatim>\<open>Error\<close> object with its message, or any other value.\<close>

datatype exn = Error (message: string) | NonError

text \<open>\<^verbatim>\<open>String.prototype.startsWith\<close> at position 0.\<close>

fun startsWith :: "string \<Rightarrow> string \<Rightarrow> bool" where
  "startsWith s [] = True"
| "startsWith [] (p # ps) = False"
| "startsWith (c # cs) (p # ps) = (c = p \<and> startsWith cs ps)"

text \<open>\<^verbatim>\<open>String.prototype.includes\<close>: the search string occurs at some position.\<close>

fun includes_str :: "string \<Rightarrow> string \<Rightarrow> bool" where
  "includes_str [] sub = (sub = [])"
| "includes_str (c # cs) sub = (startsWith (c # cs) sub \<or> includes_str cs sub)"

text \<open>\<^verbatim>\<open>String.prototype.endsWith\<close>: the last \<^verbatim>\<open>suffix.length\<close> code units are the suffix.\<close>

definition endsWith :: "string \<Rightarrow> string \<Rightarrow> bool" where
  "endsWith s suf =
     (length suf \<le> length s \<and> drop (length s - length suf) s = suf)"

text \<open>
  \<^verbatim>\<open>String.prototype.split\<close> with a separator of one code unit: the pieces between the
  separators, in order. The result is never the empty array.
\<close>

fun split :: "string \<Rightarrow> char \<Rightarrow> string list" where
  "split [] sep = [[]]"
| "split (c # cs) sep =
     (if c = sep then [] # split cs sep
      else (case split cs sep of
              [] \<Rightarrow> [[c]]
            | piece # pieces \<Rightarrow> (c # piece) # pieces))"

text \<open>
  A number inside a template literal: the decimal digits of a non-negative integer
  (the counts of simple-git are line and file counts).
\<close>

definition digit :: "nat \<Rightarrow> char" where
  "digit d = ''0123456789'' ! d"

function toString :: "nat \<Rightarrow> string" where
  "toString n = (if n < 10 then [digit n] else toString (n div 10) @ [digit (n mod 10)])"
  by pat_completeness auto
termination
  by (relation "measure id") auto

declare toString.simps [simp del]

section \<open>The simple-git interface\<close>

text \<open>
  simple-git is a dependency, not code of the repository. A handle returned by
  \<^verbatim>\<open>simpleGit(rootDir)\<close> is a record of what its two calls used here resolve to: the
  result of \<^verbatim>\<open>diffSummary()\<close> and, for each argument list, the result of \<^verbatim>\<open>diff(args)\<close>.
  A rejected promise is \<^term>\<open>Inl\<close> of the thrown value.
\<close>

text \<open>The field \<^verbatim>\<open>file\<close> of an entry is written \<open>file'\<close>.\<close>

record diff_file =
  file' :: string
  file_insertions :: nat
  file_deletions :: nat

record diff_result =
  files :: "diff_file list"
  insertions :: nat
  deletions :: nat

record git =
  diffSummary :: "exn + diff_result"
  diff :: "string list \<Rightarrow> exn + string"

type_synonym simple_git = "string \<Rightarrow> exn + git"

section \<open>getFileChangesInDirectory (src/tools.ts, lines 7-27)\<close>

definition excludeFiles :: "string list" where
  "excludeFiles = [''dist'', ''bun.lock'']"

record file_diff =
  fd_file :: string
  fd_diff :: string

text \<open>
  The \<^verbatim>\<open>for ... of\<close> loop of lines 20-24, with the array \<^verbatim>\<open>diffs\<close> as accumulator. A
  rejected \<^verbatim>\<open>git.diff\<close> leaves the loop and the function.
\<close>

fun collect_diffs :: "git \<Rightarrow> diff_file list \<Rightarrow> file_diff list \<Rightarrow> exn + file_diff list" where
  "collect_diffs g [] diffs = Inr diffs"
| "collect_diffs g (f # fs) diffs =
     (if List.member excludeFiles (file' f) then collect_diffs g fs diffs
      else (case diff g [''--'', file' f] of
              Inl e \<Rightarrow> Inl e
            | Inr d \<Rightarrow> collect_diffs g fs (diffs @ [\<lparr>fd_file = file' f, fd_diff = d\<rparr>])))"

definition getFileChangesInDirectory :: "simple_git \<Rightarrow> string \<Rightarrow> exn + file_diff list" where
  "getFileChangesInDirectory simpleGit rootDir =
     (case simpleGit rootDir of
        Inl e \<Rightarrow> Inl e
      | Inr g \<Rightarrow>
          (case diffSummary g of
             Inl e \<Rightarrow> Inl e
           | Inr summary \<Rightarrow> collect_diffs g (files summary) []))"

section \<open>generateCommitMessage (src/tools.ts, lines 36-110)\<close>

text \<open>The enum of \<^verbatim>\<open>commitMessageSchema.type\<close> and the string each member is.\<close>

datatype commit_type = Feat | Fix | Docs | Style | Refactor | Perf | Test | Chore

fun type_string :: "commit_type \<Rightarrow> string" where
  "type_string Feat = ''feat''"
| "type_string Fix = ''fix''"
| "type_string Docs = ''docs''"
| "type_string Style = ''style''"
| "type_string Refactor = ''refactor''"
| "type_string Perf = ''perf''"
| "type_string Test = ''test''"
| "type_string Chore = ''chore''"

record commit_stats =
  filesChanged :: nat
  stats_insertions :: nat
  stats_deletions :: nat
  stats_type :: commit_type

record commit_message =
  commitMessage :: string
  stats :: commit_stats
  affectedFiles :: "string list"

text \<open>The function returns either a plain string or the structured object.\<close>

datatype commit_result = Text string | Message commit_message

text \<open>Lines 52-67: the explicit type, or the first rule that matches.\<close>

definition detectedType :: "commit_type option \<Rightarrow> diff_result \<Rightarrow> commit_type" where
  "detectedType ty summary =
     (case ty of
        Some t \<Rightarrow> t
      | None \<Rightarrow>
          (let changedFiles = map file' (files summary) in
           if list_ex (\<lambda>f. includes_str f ''test'' \<or> includes_str f ''spec'') changedFiles then Test
           else if list_ex (\<lambda>f. includes_str f ''README'' \<or> endsWith f ''.md'') changedFiles then Docs
           else if list_ex (\<lambda>f. includes_str f ''package.json'') changedFiles then Chore
           else if insertions summary > deletions summary then Feat
           else Fix))"

text \<open>
  Line 76. \<^verbatim>\<open>summary.files[0]\<close> is an object when the array is not empty and
  \<^verbatim>\<open>undefined\<close> otherwise; index 0 of the array of pieces is \<^verbatim>\<open>undefined\<close> when there is
  no piece, which line 77 treats as it treats the empty string.
\<close>

definition scope :: "diff_result \<Rightarrow> string" where
  "scope summary =
     (case files summary of
        [] \<Rightarrow> ''''
      | f0 # _ \<Rightarrow>
          if length (files summary) = 1
          then (case split (file' f0) (CHR ''/'') of [] \<Rightarrow> '''' | piece # _ \<Rightarrow> piece)
          else '''')"

text \<open>Line 77: a string is truthy when it is not empty.\<close>

definition scopeText :: "diff_result \<Rightarrow> string" where
  "scopeText summary =
     (case files summary of
        [] \<Rightarrow> ''''
      | f0 # _ \<Rightarrow>
          if scope summary \<noteq> '''' \<and> scope summary \<noteq> file' f0
          then ''('' @ scope summary @ '')''
          else '''')"

text \<open>Lines 79-94.\<close>

definition description :: "commit_type \<Rightarrow> string" where
  "description t =
     (if t = Feat then ''add new functionality''
      else if t = Fix then ''resolve issues''
      else if t = Docs then ''update documentation''
      else if t = Refactor then ''improve code structure''
      else if t = Test then ''add/update tests''
      else if t = Chore then ''update dependencies/config''
      else ''make changes'')"

definition generateCommitMessage ::
  "simple_git \<Rightarrow> string \<Rightarrow> commit_type option \<Rightarrow> exn + commit_result" where
  "generateCommitMessage simpleGit rootDir ty =
     (case simpleGit rootDir of
        Inl e \<Rightarrow> Inl e
      | Inr g \<Rightarrow>
          (case diffSummary g of
             Inl e \<Rightarrow> Inl e
           | Inr summary \<Rightarrow>
               if length (files summary) = 0
               then Inr (Text ''No changes detected in the repository'')
               else
                 (case diff g [] of
                    Inl e \<Rightarrow> Inl e
                  | Inr diffText \<Rightarrow>
                      Inr (Message
                        \<lparr>commitMessage =
                           type_string (detectedType ty summary) @ scopeText summary @ '': ''
                           @ description (detectedType ty summary) @ ''\<newline>\<newline>''
                           @ toString (length (files summary)) @ '' file(s) changed, ''
                           @ toString (insertions summary) @ '' insertion(s), ''
                           @ toString (deletions summary) @ '' deletion(s)'',
                         stats =
                           \<lparr>filesChanged = length (files summary),
                            stats_insertions = insertions summary,
                            stats_deletions = deletions summary,
                            stats_type = detectedType ty summary\<rparr>,
                         affectedFiles = map file' (files summary)\<rparr>))))"

section \<open>writeReviewToMarkdown (src/tools.ts, lines 118-167)\<close>

text \<open>
  The arguments as the caller gives them, and \<^verbatim>\<open>writeMarkdownSchema\<close> (lines 119-124), which
  checks them and fills in the default before \<^verbatim>\<open>execute\<close> runs: \<^verbatim>\<open>min(1)\<close> on the two
  required strings, \<^verbatim>\<open>optional()\<close> on the title, \<^verbatim>\<open>default(true)\<close> on the flag.
\<close>

record write_args =
  arg_filePath :: string
  arg_reviewContent :: string
  arg_title :: "string option"
  arg_includeTimestamp :: "bool option"

record write_input =
  filePath :: string
  reviewContent :: string
  title :: "string option"
  includeTimestamp :: bool

definition writeMarkdownSchema :: "write_args \<Rightarrow> write_input option" where
  "writeMarkdownSchema a =
     (if 1 \<le> length (arg_filePath a) \<and> 1 \<le> length (arg_reviewContent a)
      then Some \<lparr>filePath = arg_filePath a,
                 reviewContent = arg_reviewContent a,
                 title = arg_title a,
                 includeTimestamp =
                   (case arg_includeTimestamp a of None \<Rightarrow> True | Some b \<Rightarrow> b)\<rparr>
      else None)"

text \<open>
  What the function reads from outside the repository: \<^verbatim>\<open>dirname\<close> of the path module,
  \<^verbatim>\<open>mkdir(dir, { recursive: true })\<close> and \<^verbatim>\<open>writeFile(path, data, 'utf-8')\<close> of fs/promises
  (\<^term>\<open>None\<close> when the promise resolves, the thrown value when it rejects), and the
  string \<^verbatim>\<open>new Date().toISOString()\<close> gives at the time of the call.
\<close>

record node_env =
  dirname :: "string \<Rightarrow> string"
  mkdir :: "string \<Rightarrow> exn option"
  writeFile :: "string \<Rightarrow> string \<Rightarrow> exn option"
  toISOString :: string

text \<open>The calls made on the file system, in order: the effect of the function.\<close>

datatype fs_call = Mkdir string | WriteFile string string

text \<open>
  The two objects the function returns: \<^verbatim>\<open>{success: true, filePath, message, size}\<close> and
  \<^verbatim>\<open>{success: false, error, filePath}\<close>.
\<close>

datatype write_result =
    Success string string nat
  | Failure string string

fun success :: "write_result \<Rightarrow> bool" where
  "success (Success fp msg sz) = True"
| "success (Failure err fp) = False"

text \<open>Lines 134-150: the document, built by appending to \<^verbatim>\<open>markdownContent\<close>.\<close>

definition markdownContent :: "node_env \<Rightarrow> write_input \<Rightarrow> string" where
  "markdownContent env inp =
     (let timestamp = (if includeTimestamp inp then Some (toISOString env) else None);
          reviewTitle =
            (case title inp of
               None \<Rightarrow> ''Code Review''
             | Some t \<Rightarrow> if t \<noteq> '''' then t else ''Code Review'');
          content = ''# '' @ reviewTitle @ ''\<newline>\<newline>'';
          content =
            (case timestamp of
               None \<Rightarrow> content
             | Some ts \<Rightarrow>
                 if ts \<noteq> '''' then content @ ''**Generated:** '' @ ts @ ''\<newline>\<newline>''
                 else content);
          content = content @ ''---\<newline>\<newline>'';
          content = content @ reviewContent inp
      in if \<not> includes_str (reviewContent inp) ''##'' \<and> \<not> includes_str (reviewContent inp) ''###''
         then content @ ''\<newline>\<newline>## Summary\<newline>\<newline>''
              @ ''This review was generated automatically. Please review the suggestions and apply them as appropriate.\<newline>''
         else content)"

text \<open>
  Lines 130-159, the body of \<^verbatim>\<open>try\<close>: the calls it makes, and its value or the value
  thrown inside it.
\<close>

definition try_block :: "node_env \<Rightarrow> write_input \<Rightarrow> fs_call list \<times> (exn + write_result)" where
  "try_block env inp =
     (let dir = dirname env (filePath inp) in
      case mkdir env dir of
        Some e \<Rightarrow> ([Mkdir dir], Inl e)
      | None \<Rightarrow>
          (let content = markdownContent env inp in
           case writeFile env (filePath inp) content of
             Some e \<Rightarrow> ([Mkdir dir, WriteFile (filePath inp) content], Inl e)
           | None \<Rightarrow>
               ([Mkdir dir, WriteFile (filePath inp) content],
                Inr (Success (filePath inp)
                       (''Code review successfully written to '' @ filePath inp)
                       (length content)))))"

text \<open>Lines 160-166, the handler of \<^verbatim>\<open>catch\<close>.\<close>

definition catch_block :: "write_input \<Rightarrow> exn \<Rightarrow> exn + write_result" where
  "catch_block inp error =
     Inr (Failure (case error of Error msg \<Rightarrow> msg | NonError \<Rightarrow> ''Unknown error occurred'')
            (filePath inp))"

definition writeReviewToMarkdown ::
  "node_env \<Rightarrow> write_input \<Rightarrow> fs_call list \<times> (exn + write_result)" where
  "writeReviewToMarkdown env inp =
     (case try_block env inp of
        (calls, Inl error) \<Rightarrow> (calls, catch_block inp error)
      | (calls, Inr result) \<Rightarrow> (calls, Inr result))"

section \<open>Example repositories\<close>

text \<open>
  A summary with the given paths and totals, a handle whose \<^verbatim>\<open>diffSummary\<close> resolves to it and
  whose \<^verbatim>\<open>diff\<close> resolves to some text, and a \<^verbatim>\<open>simpleGit\<close> that returns the handle.
\<close>

definition fixture_summary :: "string list \<Rightarrow> nat \<Rightarrow> nat \<Rightarrow> diff_result" where
  "fixture_summary paths i d =
     \<lparr>files = map (\<lambda>p. \<lparr>file' = p, file_insertions = 0, file_deletions = 0\<rparr>) paths,
      insertions = i, deletions = d\<rparr>"

definition fixture_git :: "diff_result \<Rightarrow> git" where
  "fixture_git summary = \<lparr>diffSummary = Inr summary, diff = (\<lambda>args. Inr (''diff '' @ concat args))\<rparr>"

definition fixture_simpleGit :: "diff_result \<Rightarrow> simple_git" where
  "fixture_simpleGit summary = (\<lambda>rootDir. Inr (fixture_git summary))"

definition one_file :: "string \<Rightarrow> diff_result" where
  "one_file p = fixture_summary [p] 3 1"

definition two_files :: diff_result where
  "two_files = fixture_summary [''a/x.ts'', ''b/y.ts''] 10 2"


definition failing_git :: git where
  "failing_git =
     \<lparr>diffSummary = Inr (fixture_summary [''dist'', ''src/a.ts'', ''src/b.ts'', ''src/c.ts''] 5 2),
      diff = (\<lambda>args. if args = [''--'', ''src/b.ts'']
                      then Inl (Error ''fatal: unable to read src/b.ts'')
                      else Inr (''diff '' @ concat args))\<rparr>"

definition build_and_sources :: diff_result where
  "build_and_sources = fixture_summary [''dist'', ''dist/app.js'', ''bun.lock'', ''src/tools.ts''] 120 40"

text \<open>
  A file system whose \<^verbatim>\<open>mkdir\<close> and \<^verbatim>\<open>writeFile\<close> have the given outcomes, with a clock at a
  fixed instant, and the arguments of a review written to \<^verbatim>\<open>reviews/code-review.md\<close>.
\<close>

definition fixture_env :: "exn option \<Rightarrow> exn option \<Rightarrow> node_env" where
  "fixture_env mkdir_outcome writeFile_outcome =
     \<lparr>dirname = (\<lambda>p. if CHR ''/'' \<in> set p then takeWhile (\<lambda>c. c \<noteq> CHR ''/'') p else ''.''),
      mkdir = (\<lambda>dir. mkdir_outcome),
      writeFile = (\<lambda>p content. writeFile_outcome),
      toISOString = ''2025-09-20T10:30:00.000Z''\<rparr>"

definition fixture_input :: "string option \<Rightarrow> bool \<Rightarrow> string \<Rightarrow> write_input" where
  "fixture_input t ts content =
     \<lparr>filePath = ''reviews/code-review.md'', reviewContent = content, title = t,
      includeTimestamp = ts\<rparr>"



section \<open>Properties\<close>

subsection \<open>The string operations\<close>

lemma split_not_Nil: "split s sep \<noteq> []"
  by (induction s) (auto split: list.splits)

lemma startsWith_prefix: "startsWith s p = prefix p s"
  by (induction s p rule: startsWith.induct) auto

lemma includes_str_sublist: "includes_str s sub = sublist sub s"
  by (induction s) (auto simp: startsWith_prefix sublist_Cons_right)

lemma endsWith_suffix: "endsWith s suf = suffix suf s"
  unfolding endsWith_def
  by (metis suffix_drop suffix_length_le suffix_def append_eq_conv_conj length_append add_diff_cancel_right')

lemma split_first: "split s sep = piece # pieces \<Longrightarrow> piece = takeWhile (\<lambda>c. c \<noteq> sep) s"
  by (induction s arbitrary: piece pieces) (auto simp: split_not_Nil split: if_splits list.splits)













subsection \<open>generateCommitMessage\<close>

lemma generateCommitMessage_Message:
  assumes "simpleGit rootDir = Inr g" and "diffSummary g = Inr summary"
    and "files summary \<noteq> []" and "diff g [] = Inr diffText"
  shows "generateCommitMessage simpleGit rootDir ty =
     Inr (Message
       \<lparr>commitMessage =
          type_string (detectedType ty summary) @ scopeText summary @ '': ''
          @ description (detectedType ty summary) @ ''\<newline>\<newline>''
          @ toString (length (files summary)) @ '' file(s) changed, ''
          @ toString (insertions summary) @ '' insertion(s), ''
          @ toString (deletions summary) @ '' deletion(s)'',
        stats =
          \<lparr>filesChanged = length (files summary),
           stats_insertions = insertions summary,
           stats_deletions = deletions summary,
           stats_type = detectedType ty summary\<rparr>,
        affectedFiles = map file' (files summary)\<rparr>)"
  using assms by (simp add: generateCommitMessage_def)

lemmas fixture_defs = fixture_simpleGit_def fixture_git_def fixture_summary_def

lemma detectedType_None:
  "detectedType None summary =
     (if \<exists>f \<in> set (files summary). sublist ''test'' (file' f) \<or> sublist ''spec'' (file' f) then Test
      else if \<exists>f \<in> set (files summary). sublist ''README'' (file' f) \<or> suffix ''.md'' (file' f) then Docs
      else if \<exists>f \<in> set (files summary). sublist ''package.json'' (file' f) then Chore
      else if deletions summary < insertions summary then Feat
      else Fix)"
  by (simp add: detectedType_def list_ex_iff includes_str_sublist endsWith_suffix)



lemma same_paths_cases:
  assumes "map file' (files a) = map file' (files b)"
  obtains "files a = []" and "files b = []"
  | f fs h hs where "files a = f # fs" and "files b = h # hs" and "file' f = file' h"
      and "length fs = length hs"
proof (cases "files a")
  case Nil
  with assms have "files b = []" by simp
  with Nil show ?thesis using that(1) by blast
next
  case (Cons f fs)
  with assms obtain h hs where b: "files b = h # hs" by (cases "files b") auto
  with Cons assms have "file' f = file' h" "length fs = length hs"
    by (auto dest: map_eq_imp_length_eq)
  with Cons b show ?thesis using that(2) by blast
qed

lemma scope_same_paths:
  assumes "map file' (files a) = map file' (files b)"
  shows "scope a = scope b"
  using assms by (rule same_paths_cases) (simp_all add: scope_def)

lemma scopeText_same_paths:
  assumes "map file' (files a) = map file' (files b)"
  shows "scopeText a = scopeText b"
  using assms by (rule same_paths_cases) (simp_all add: scopeText_def scope_same_paths [OF assms])

lemma detectedType_same_paths:
  assumes "map file' (files a) = map file' (files b)"
    and "insertions a = insertions b" and "deletions a = deletions b"
  shows "detectedType ty a = detectedType ty b"
  unfolding detectedType_def assms by (rule refl)

lemma scope_single:
  "files summary = [f] \<Longrightarrow> scope summary = takeWhile (\<lambda>c. c \<noteq> CHR ''/'') (file' f)"
  by (auto simp: scope_def split_not_Nil split: list.splits dest: split_first)

lemma scope_many: "length (files summary) \<noteq> 1 \<Longrightarrow> scope summary = ''''"
  by (cases "files summary") (simp_all add: scope_def)

lemma first_piece_empty:
  "takeWhile (\<lambda>c. c \<noteq> sep) s = [] \<longleftrightarrow> s = [] \<or> prefix [sep] s"
  by (cases s) auto

lemma scopeText_cases:
  "scopeText summary =
     (case files summary of
        [f] \<Rightarrow>
          if CHR ''/'' \<in> set (file' f) \<and> \<not> prefix ''/'' (file' f)
          then ''('' @ takeWhile (\<lambda>c. c \<noteq> CHR ''/'') (file' f) @ '')''
          else ''''
      | _ \<Rightarrow> '''')"
proof (cases "files summary")
  case Nil
  then show ?thesis by (simp add: scopeText_def)
next
  case (Cons f fs)
  show ?thesis
  proof (cases fs)
    case Nil
    with Cons have one: "files summary = [f]" by simp
    have "takeWhile (\<lambda>c. c \<noteq> CHR ''/'') (file' f) \<noteq> file' f \<longleftrightarrow> CHR ''/'' \<in> set (file' f)"
      by (simp add: takeWhile_eq_all_conv)
    moreover have "CHR ''/'' \<in> set (file' f) \<Longrightarrow>
        takeWhile (\<lambda>c. c \<noteq> CHR ''/'') (file' f) \<noteq> [] \<longleftrightarrow> \<not> prefix ''/'' (file' f)"
      by (auto simp: first_piece_empty)
    ultimately show ?thesis
      using one by (auto simp: scopeText_def scope_single [OF one])
  next
    case (Cons h hs)
    with \<open>files summary = f # fs\<close> have "scope summary = ''''"
      by (intro scope_many) simp
    with Cons \<open>files summary = f # fs\<close> show ?thesis by (simp add: scopeText_def)
  qed
qed

subsection \<open>getFileChangesInDirectory\<close>

lemma in_excludeFiles: "p \<in> set excludeFiles \<longleftrightarrow> p = ''dist'' \<or> p = ''bun.lock''"
  by (auto simp: excludeFiles_def)

lemma collect_diffs_all:
  assumes "\<forall>f \<in> set fs. \<not> List.member excludeFiles (file' f) \<longrightarrow>
             diff g [''--'', file' f] = Inr (d (file' f))"
  shows "collect_diffs g fs diffs =
     Inr (diffs @ map (\<lambda>p. \<lparr>fd_file = p, fd_diff = d p\<rparr>)
                    (filter (\<lambda>p. \<not> List.member excludeFiles p) (map file' fs)))"
  using assms by (induction fs arbitrary: diffs) simp_all

lemma collect_diffs_retained:
  assumes "collect_diffs g fs diffs = Inr ds"
    and "\<forall>d \<in> set diffs. \<not> List.member excludeFiles (fd_file d)"
  shows "\<forall>d \<in> set ds. \<not> List.member excludeFiles (fd_file d)"
  using assms
proof (induction fs arbitrary: diffs)
  case Nil
  then show ?case by simp
next
  case (Cons f fs)
  show ?case
  proof (cases "List.member excludeFiles (file' f)")
    case True
    with Cons.prems have "collect_diffs g fs diffs = Inr ds" by simp
    then show ?thesis using Cons.prems(2) by (rule Cons.IH)
  next
    case False
    with Cons.prems(1) obtain t where t: "diff g [''--'', file' f] = Inr t"
      and rest: "collect_diffs g fs (diffs @ [\<lparr>fd_file = file' f, fd_diff = t\<rparr>]) = Inr ds"
      by (auto split: sum.splits)
    from False Cons.prems(2)
    have "\<forall>d \<in> set (diffs @ [\<lparr>fd_file = file' f, fd_diff = t\<rparr>]). \<not> List.member excludeFiles (fd_file d)"
      by simp
    with rest show ?thesis by (rule Cons.IH)
  qed
qed

lemma collect_diffs_failure:
  assumes "f \<in> set fs" and "\<not> List.member excludeFiles (file' f)"
    and "isl (diff g [''--'', file' f])"
  shows "isl (collect_diffs g fs diffs)"
  using assms by (induction fs arbitrary: diffs) (auto split: sum.splits)

lemma collect_diffs_first_failure:
  assumes "\<forall>h \<in> set pre. file' h \<in> set excludeFiles \<or> \<not> isl (diff g [''--'', file' h])"
    and "file' f \<notin> set excludeFiles" and "diff g [''--'', file' f] = Inl e"
  shows "collect_diffs g (pre @ f # post) diffs = Inl e"
  using assms
proof (induction pre arbitrary: diffs)
  case Nil
  then show ?case by simp
next
  case (Cons h pre)
  then have rest: "collect_diffs g (pre @ f # post) ds = Inl e" for ds by simp
  from Cons.prems(1) have "file' h \<in> set excludeFiles \<or> \<not> isl (diff g [''--'', file' h])"
    by simp
  then show ?case
  proof
    assume "file' h \<in> set excludeFiles"
    then show ?thesis by (simp add: rest)
  next
    assume "\<not> isl (diff g [''--'', file' h])"
    then obtain t where "diff g [''--'', file' h] = Inr t"
      by (cases "diff g [''--'', file' h]") auto
    then show ?thesis by (simp add: rest)
  qed
qed

subsection \<open>writeReviewToMarkdown\<close>

lemmas write_fixture_defs = fixture_env_def fixture_input_def

lemma markdownContent_eq:
  assumes "toISOString env \<noteq> ''''"
  shows "markdownContent env inp =
     ''# ''
     @ (case title inp of None \<Rightarrow> ''Code Review'' | Some t \<Rightarrow> if t = '''' then ''Code Review'' else t)
     @ ''\<newline>\<newline>''
     @ (if includeTimestamp inp then ''**Generated:** '' @ toISOString env @ ''\<newline>\<newline>'' else '''')
     @ ''---\<newline>\<newline>''
     @ reviewContent inp
     @ (if sublist ''##'' (reviewContent inp) then ''''
        else ''\<newline>\<newline>## Summary\<newline>\<newline>This review was generated automatically. Please review the suggestions and apply them as appropriate.\<newline>'')"
proof -
  have "sublist ''###'' s \<Longrightarrow> sublist ''##'' s" for s :: string
    by (rule sublist_order.order_trans [of "''##''" "''###''"]) (auto simp: sublist_Cons_right)
  then show ?thesis
    using assms by (auto simp: markdownContent_def Let_def includes_str_sublist split: option.splits)
qed

lemma writeReviewToMarkdown_cases:
  "writeReviewToMarkdown env inp =
     (case mkdir env (dirname env (filePath inp)) of
        Some e \<Rightarrow>
          ([Mkdir (dirname env (filePath inp))],
           Inr (Failure (case e of Error msg \<Rightarrow> msg | NonError \<Rightarrow> ''Unknown error occurred'')
                  (filePath inp)))
      | None \<Rightarrow>
          (case writeFile env (filePath inp) (markdownContent env inp) of
             Some e \<Rightarrow>
               ([Mkdir (dirname env (filePath inp)),
                 WriteFile (filePath inp) (markdownContent env inp)],
                Inr (Failure (case e of Error msg \<Rightarrow> msg | NonError \<Rightarrow> ''Unknown error occurred'')
                       (filePath inp)))
           | None \<Rightarrow>
               ([Mkdir (dirname env (filePath inp)),
                 WriteFile (filePath inp) (markdownContent env inp)],
                Inr (Success (filePath inp)
                       (''Code review successfully written to '' @ filePath inp)
                       (length (markdownContent env inp))))))"
  by (simp add: writeReviewToMarkdown_def try_block_def catch_block_def Let_def split: option.splits)

subsection \<open>The claims\<close>

text \<open>
  C2: when the summary has no file, the result is exactly the string
  \<^verbatim>\<open>No changes detected in the repository\<close>, whatever the explicit type is and whatever
  \<^verbatim>\<open>git.diff()\<close> would do: the check of line 47 comes before the type is looked at and
  before the diff is fetched, so nothing is classified or composed.
\<close>

theorem no_changes_sentinel:
  assumes "simpleGit rootDir = Inr g" and "diffSummary g = Inr summary" and "files summary = []"
  shows "generateCommitMessage simpleGit rootDir ty = Inr (Text ''No changes detected in the repository'')"
  using assms by (simp add: generateCommitMessage_def)

theorem no_changes_sentinel_witness:
  "fixture_simpleGit (fixture_summary [] 0 0) ''repo'' = Inr (fixture_git (fixture_summary [] 0 0))
   \<and> diffSummary (fixture_git (fixture_summary [] 0 0)) = Inr (fixture_summary [] 0 0)
   \<and> files (fixture_summary [] 0 0) = []
   \<and> generateCommitMessage (fixture_simpleGit (fixture_summary [] 0 0)) ''repo'' (Some Feat)
       = Inr (Text ''No changes detected in the repository'')"
  using no_changes_sentinel [of "fixture_simpleGit (fixture_summary [] 0 0)" "''repo''"
      "fixture_git (fixture_summary [] 0 0)" "fixture_summary [] 0 0" "Some Feat"]
  by (simp add: fixture_simpleGit_def fixture_git_def fixture_summary_def)

text \<open>
  C1: with at least one file in the summary and no explicit type, the type in the result is
  \<^verbatim>\<open>test\<close> if some path contains \<^verbatim>\<open>test\<close> or \<^verbatim>\<open>spec\<close>; else \<^verbatim>\<open>docs\<close> if some path contains
  \<^verbatim>\<open>README\<close> or ends with \<^verbatim>\<open>.md\<close>; else \<^verbatim>\<open>chore\<close> if some path contains \<^verbatim>\<open>package.json\<close>;
  else \<^verbatim>\<open>feat\<close> if there are more insertions than deletions; else \<^verbatim>\<open>fix\<close>. Containment and
  ending are stated with \<^const>\<open>sublist\<close> and \<^const>\<open>suffix\<close> of the library.
\<close>

theorem detected_type_priority:
  assumes "simpleGit rootDir = Inr g" and "diffSummary g = Inr summary"
    and "files summary \<noteq> []" and "diff g [] = Inr diffText"
  shows "\<exists>m. generateCommitMessage simpleGit rootDir None = Inr (Message m) \<and>
     stats_type (stats m) =
       (if \<exists>f \<in> set (files summary). sublist ''test'' (file' f) \<or> sublist ''spec'' (file' f) then Test
        else if \<exists>f \<in> set (files summary). sublist ''README'' (file' f) \<or> suffix ''.md'' (file' f) then Docs
        else if \<exists>f \<in> set (files summary). sublist ''package.json'' (file' f) then Chore
        else if deletions summary < insertions summary then Feat
        else Fix)"
  using generateCommitMessage_Message [of simpleGit rootDir g summary diffText None] assms
  by (simp add: detectedType_None)

theorem detected_type_priority_witness:
  "fixture_simpleGit (fixture_summary [''src/app.ts'', ''package.json'', ''README.md'', ''src/app.spec.ts''] 9 2) ''repo''
     = Inr (fixture_git (fixture_summary [''src/app.ts'', ''package.json'', ''README.md'', ''src/app.spec.ts''] 9 2))
   \<and> diffSummary (fixture_git (fixture_summary [''src/app.ts'', ''package.json'', ''README.md'', ''src/app.spec.ts''] 9 2))
     = Inr (fixture_summary [''src/app.ts'', ''package.json'', ''README.md'', ''src/app.spec.ts''] 9 2)
   \<and> files (fixture_summary [''src/app.ts'', ''package.json'', ''README.md'', ''src/app.spec.ts''] 9 2) \<noteq> []
   \<and> diff (fixture_git (fixture_summary [''src/app.ts'', ''package.json'', ''README.md'', ''src/app.spec.ts''] 9 2)) []
     = Inr ''diff ''
   \<and> (\<exists>m. generateCommitMessage
              (fixture_simpleGit (fixture_summary [''src/app.ts'', ''package.json'', ''README.md'', ''src/app.spec.ts''] 9 2))
              ''repo'' None = Inr (Message m)
          \<and> stats_type (stats m) = Test)"
  using detected_type_priority
    [of "fixture_simpleGit (fixture_summary [''src/app.ts'', ''package.json'', ''README.md'', ''src/app.spec.ts''] 9 2)"
        "''repo''"
        "fixture_git (fixture_summary [''src/app.ts'', ''package.json'', ''README.md'', ''src/app.spec.ts''] 9 2)"
        "fixture_summary [''src/app.ts'', ''package.json'', ''README.md'', ''src/app.spec.ts''] 9 2"
        "''diff ''"]
  by (simp add: fixture_defs includes_str_sublist [symmetric])







text \<open>
  C10: two calls whose summaries have the same paths in the same order and the same totals, and
  that are given the same explicit type, return the same value, whatever text \<^verbatim>\<open>git.diff()\<close>
  resolves to in each and whatever the per-file counts are.
\<close>

theorem diff_text_no_influence:
  assumes "simpleGit\<^sub>1 rootDir\<^sub>1 = Inr g\<^sub>1" and "simpleGit\<^sub>2 rootDir\<^sub>2 = Inr g\<^sub>2"
    and "diffSummary g\<^sub>1 = Inr summary\<^sub>1" and "diffSummary g\<^sub>2 = Inr summary\<^sub>2"
    and paths: "map file' (files summary\<^sub>1) = map file' (files summary\<^sub>2)"
    and ins: "insertions summary\<^sub>1 = insertions summary\<^sub>2"
    and dels: "deletions summary\<^sub>1 = deletions summary\<^sub>2"
    and "diff g\<^sub>1 [] = Inr diffText\<^sub>1" and "diff g\<^sub>2 [] = Inr diffText\<^sub>2"
  shows "generateCommitMessage simpleGit\<^sub>1 rootDir\<^sub>1 ty = generateCommitMessage simpleGit\<^sub>2 rootDir\<^sub>2 ty"
proof -
  have len: "length (files summary\<^sub>1) = length (files summary\<^sub>2)"
    using paths by (rule map_eq_imp_length_eq)
  show ?thesis
    unfolding generateCommitMessage_def
    by (simp only: assms(1-4,8,9) sum.case len paths ins dels
          detectedType_same_paths [OF paths ins dels, of ty] scopeText_same_paths [OF paths])
qed


theorem diff_text_no_influence_witness:
  "(\<lambda>rootDir. Inr \<lparr>diffSummary = Inr (one_file ''src/tools.ts''), diff = (\<lambda>args. Inr ''+ added line'')\<rparr>) ''repo''
     = (Inr \<lparr>diffSummary = Inr (one_file ''src/tools.ts''), diff = (\<lambda>args. Inr ''+ added line'')\<rparr> :: exn + git)
   \<and> fixture_simpleGit \<lparr>files = [\<lparr>file' = ''src/tools.ts'', file_insertions = 3, file_deletions = 1\<rparr>],
                          insertions = 3, deletions = 1\<rparr> ''copy''
     = Inr (fixture_git \<lparr>files = [\<lparr>file' = ''src/tools.ts'', file_insertions = 3, file_deletions = 1\<rparr>],
                          insertions = 3, deletions = 1\<rparr>)
   \<and> ''+ added line'' \<noteq> ''diff ''
   \<and> generateCommitMessage
         (\<lambda>rootDir. Inr \<lparr>diffSummary = Inr (one_file ''src/tools.ts''), diff = (\<lambda>args. Inr ''+ added line'')\<rparr>)
         ''repo'' None
     = generateCommitMessage
         (fixture_simpleGit \<lparr>files = [\<lparr>file' = ''src/tools.ts'', file_insertions = 3, file_deletions = 1\<rparr>],
                             insertions = 3, deletions = 1\<rparr>)
         ''copy'' None"
proof -
  let ?g1 = "\<lparr>diffSummary = Inr (one_file ''src/tools.ts''), diff = (\<lambda>args. Inr ''+ added line'')\<rparr>"
  let ?s2 = "\<lparr>files = [\<lparr>file' = ''src/tools.ts'', file_insertions = 3, file_deletions = 1\<rparr>],
              insertions = 3, deletions = 1\<rparr>"
  have "generateCommitMessage (\<lambda>rootDir. Inr ?g1) ''repo'' None
      = generateCommitMessage (fixture_simpleGit ?s2) ''copy'' None"
    by (rule diff_text_no_influence
          [where g\<^sub>1 = ?g1 and g\<^sub>2 = "fixture_git ?s2" and summary\<^sub>1 = "one_file ''src/tools.ts''"
             and summary\<^sub>2 = ?s2 and diffText\<^sub>1 = "''+ added line''" and diffText\<^sub>2 = "''diff ''"])
       (simp_all add: fixture_defs one_file_def)
  then show ?thesis by (simp add: fixture_defs)
qed

text \<open>
  C4, as stated, fails for a single file whose path begins with the separator: the first piece
  of \<^verbatim>\<open>/x\<close> is the empty string, which line 77 does not take for a scope, so the message of a
  path that contains \<^verbatim>\<open>/\<close> carries no parentheses.
\<close>

theorem scope_leading_separator_counterexample:
  "CHR ''/'' \<in> set ''/x''
   \<and> files (one_file ''/x'') = [\<lparr>file' = ''/x'', file_insertions = 0, file_deletions = 0\<rparr>]
   \<and> split ''/x'' (CHR ''/'') = ['''', ''x'']
   \<and> generateCommitMessage (fixture_simpleGit (one_file ''/x'')) ''repo'' None
     = Inr (Message
         \<lparr>commitMessage =
            ''feat: add new functionality\<newline>\<newline>1 file(s) changed, 3 insertion(s), 1 deletion(s)'',
          stats = \<lparr>filesChanged = 1, stats_insertions = 3, stats_deletions = 1, stats_type = Feat\<rparr>,
          affectedFiles = [''/x'']\<rparr>)"
  by (simp add: generateCommitMessage_def fixture_defs one_file_def detectedType_def scopeText_def
        scope_def description_def endsWith_def toString.simps digit_def)

text \<open>
  C4, amended: the message carries the first piece of the path in parentheses, right after the
  type, exactly when the summary has one file whose path contains \<^verbatim>\<open>/\<close> and does not begin
  with it. A single path without \<^verbatim>\<open>/\<close>, a single path that begins with \<^verbatim>\<open>/\<close>, and a summary of
  more than one file give no scope: the colon follows the type at once.
\<close>

theorem scope_rule:
  assumes "simpleGit rootDir = Inr g" and "diffSummary g = Inr summary"
    and "files summary \<noteq> []" and "diff g [] = Inr diffText"
  shows "\<exists>m rest. generateCommitMessage simpleGit rootDir ty = Inr (Message m) \<and>
     prefix '': '' rest \<and>
     commitMessage m =
       type_string (stats_type (stats m))
       @ (case files summary of
            [f] \<Rightarrow>
              if CHR ''/'' \<in> set (file' f) \<and> \<not> prefix ''/'' (file' f)
              then ''('' @ takeWhile (\<lambda>c. c \<noteq> CHR ''/'') (file' f) @ '')''
              else ''''
          | _ \<Rightarrow> '''')
       @ rest"
  using generateCommitMessage_Message [of simpleGit rootDir g summary diffText ty] assms
  by (simp add: scopeText_cases [symmetric])

theorem scope_rule_witness:
  "fixture_simpleGit (one_file ''src/tools.ts'') ''repo'' = Inr (fixture_git (one_file ''src/tools.ts''))
   \<and> diffSummary (fixture_git (one_file ''src/tools.ts'')) = Inr (one_file ''src/tools.ts'')
   \<and> files (one_file ''src/tools.ts'') \<noteq> []
   \<and> diff (fixture_git (one_file ''src/tools.ts'')) [] = Inr ''diff ''
   \<and> (\<exists>m rest. generateCommitMessage (fixture_simpleGit (one_file ''src/tools.ts'')) ''repo'' None
                 = Inr (Message m)
          \<and> prefix '': '' rest
          \<and> commitMessage m = type_string (stats_type (stats m)) @ ''(src)'' @ rest)
   \<and> fixture_simpleGit two_files ''repo'' = Inr (fixture_git two_files)
   \<and> diffSummary (fixture_git two_files) = Inr two_files
   \<and> files two_files \<noteq> []
   \<and> diff (fixture_git two_files) [] = Inr ''diff ''
   \<and> (\<exists>m rest. generateCommitMessage (fixture_simpleGit two_files) ''repo'' None = Inr (Message m)
          \<and> prefix '': '' rest
          \<and> commitMessage m = type_string (stats_type (stats m)) @ rest)"
proof -
  have pre: "fixture_simpleGit (one_file ''src/tools.ts'') ''repo'' = Inr (fixture_git (one_file ''src/tools.ts''))"
    "diffSummary (fixture_git (one_file ''src/tools.ts'')) = Inr (one_file ''src/tools.ts'')"
    "files (one_file ''src/tools.ts'') \<noteq> []"
    "diff (fixture_git (one_file ''src/tools.ts'')) [] = Inr ''diff ''"
    by (simp_all add: fixture_defs one_file_def)
  have "files (one_file ''src/tools.ts'')
      = [\<lparr>file' = ''src/tools.ts'', file_insertions = 0, file_deletions = 0\<rparr>]"
    by (simp add: fixture_defs one_file_def)
  with scope_rule
    [where simpleGit = "fixture_simpleGit (one_file ''src/tools.ts'')" and rootDir = "''repo''"
       and ty = None, OF pre]
  have one: "\<exists>m rest. generateCommitMessage (fixture_simpleGit (one_file ''src/tools.ts'')) ''repo'' None
                 = Inr (Message m)
          \<and> prefix '': '' rest
          \<and> commitMessage m = type_string (stats_type (stats m)) @ ''(src)'' @ rest"
    by simp
  have pre2: "fixture_simpleGit two_files ''repo'' = Inr (fixture_git two_files)"
    "diffSummary (fixture_git two_files) = Inr two_files"
    "files two_files \<noteq> []"
    "diff (fixture_git two_files) [] = Inr ''diff ''"
    by (simp_all add: fixture_defs two_files_def)
  have "files two_files
      = [\<lparr>file' = ''a/x.ts'', file_insertions = 0, file_deletions = 0\<rparr>,
         \<lparr>file' = ''b/y.ts'', file_insertions = 0, file_deletions = 0\<rparr>]"
    by (simp add: fixture_defs two_files_def)
  with scope_rule
    [where simpleGit = "fixture_simpleGit two_files" and rootDir = "''repo''" and ty = None, OF pre2]
  have two: "\<exists>m rest. generateCommitMessage (fixture_simpleGit two_files) ''repo'' None = Inr (Message m)
          \<and> prefix '': '' rest
          \<and> commitMessage m = type_string (stats_type (stats m)) @ rest"
    by simp
  from pre one pre2 two show ?thesis by blast
qed

text \<open>
  C5, as stated, fails: \<^verbatim>\<open>generateCommitMessage\<close> takes the summary as \<^verbatim>\<open>diffSummary()\<close> gives
  it. With \<^verbatim>\<open>dist\<close> and \<^verbatim>\<open>bun.lock\<close> among the changed files, both are counted and both are listed
  in the affected files.
\<close>

theorem excluded_path_in_summary_counterexample:
  "List.member excludeFiles ''bun.lock''
   \<and> generateCommitMessage (fixture_simpleGit build_and_sources) ''repo'' None
     = Inr (Message
         \<lparr>commitMessage =
            ''feat: add new functionality\<newline>\<newline>4 file(s) changed, 120 insertion(s), 40 deletion(s)'',
          stats = \<lparr>filesChanged = 4, stats_insertions = 120, stats_deletions = 40, stats_type = Feat\<rparr>,
          affectedFiles = [''dist'', ''dist/app.js'', ''bun.lock'', ''src/tools.ts'']\<rparr>)"
  by (simp add: generateCommitMessage_def fixture_defs build_and_sources_def detectedType_def
        scopeText_def scope_def description_def endsWith_def toString.simps digit_def excludeFiles_def)

text \<open>
  C5, amended: the exclusion set is applied in \<^verbatim>\<open>getFileChangesInDirectory\<close> only. Every entry it
  returns has a path outside the set; the result of \<^verbatim>\<open>generateCommitMessage\<close> is computed from
  the whole summary, excluded paths included: the affected files are all its paths, the count
  is the number of its entries, the totals are its totals and the type is detected on it.
\<close>

theorem exclusion_only_in_listChanges:
  "(\<forall>ds. getFileChangesInDirectory simpleGit rootDir = Inr ds \<longrightarrow>
      (\<forall>d \<in> set ds. fd_file d \<notin> set excludeFiles)) \<and>
   (\<forall>m. generateCommitMessage simpleGit rootDir ty = Inr (Message m) \<longrightarrow>
      (\<exists>g summary. simpleGit rootDir = Inr g \<and> diffSummary g = Inr summary \<and>
         affectedFiles m = map file' (files summary) \<and>
         filesChanged (stats m) = length (files summary) \<and>
         stats_insertions (stats m) = insertions summary \<and>
         stats_deletions (stats m) = deletions summary \<and>
         stats_type (stats m) = detectedType ty summary))"
proof (intro conjI allI impI)
  fix ds
  assume "getFileChangesInDirectory simpleGit rootDir = Inr ds"
  then obtain g :: git and summary :: diff_result
    where "collect_diffs g (files summary) [] = Inr ds"
    by (auto simp: getFileChangesInDirectory_def split: sum.splits)
  then have "\<forall>d \<in> set ds. \<not> List.member excludeFiles (fd_file d)"
    by (rule collect_diffs_retained) simp
  then show "\<forall>d \<in> set ds. fd_file d \<notin> set excludeFiles"
    by simp
next
  fix m
  assume "generateCommitMessage simpleGit rootDir ty = Inr (Message m)"
  then show "\<exists>g summary. simpleGit rootDir = Inr g \<and> diffSummary g = Inr summary \<and>
         affectedFiles m = map file' (files summary) \<and>
         filesChanged (stats m) = length (files summary) \<and>
         stats_insertions (stats m) = insertions summary \<and>
         stats_deletions (stats m) = deletions summary \<and>
         stats_type (stats m) = detectedType ty summary"
    by (auto simp: generateCommitMessage_def split: sum.splits if_splits)
qed


theorem exclusion_only_in_listChanges_witness:
  "getFileChangesInDirectory (fixture_simpleGit build_and_sources) ''repo''
     = Inr [\<lparr>fd_file = ''dist/app.js'', fd_diff = ''diff --dist/app.js''\<rparr>,
            \<lparr>fd_file = ''src/tools.ts'', fd_diff = ''diff --src/tools.ts''\<rparr>]
   \<and> ''dist/app.js'' \<notin> set excludeFiles \<and> ''src/tools.ts'' \<notin> set excludeFiles
   \<and> (\<exists>m. generateCommitMessage (fixture_simpleGit build_and_sources) ''repo'' None = Inr (Message m)
          \<and> affectedFiles m = [''dist'', ''dist/app.js'', ''bun.lock'', ''src/tools.ts'']
          \<and> filesChanged (stats m) = 4)"
proof -
  let ?ds = "[\<lparr>fd_file = ''dist/app.js'', fd_diff = ''diff --dist/app.js''\<rparr>,
              \<lparr>fd_file = ''src/tools.ts'', fd_diff = ''diff --src/tools.ts''\<rparr>]"
  have ds: "getFileChangesInDirectory (fixture_simpleGit build_and_sources) ''repo'' = Inr ?ds"
    by (simp add: getFileChangesInDirectory_def fixture_defs build_and_sources_def excludeFiles_def)
  obtain m where m: "generateCommitMessage (fixture_simpleGit build_and_sources) ''repo'' None = Inr (Message m)"
    by (simp add: generateCommitMessage_def fixture_defs build_and_sources_def)
  note both = exclusion_only_in_listChanges
    [of "fixture_simpleGit build_and_sources" "''repo''" None]
  from both ds have "\<forall>d \<in> set ?ds. fd_file d \<notin> set excludeFiles" by blast
  moreover from both m
  have "affectedFiles m = map file' (files build_and_sources)"
    "filesChanged (stats m) = length (files build_and_sources)"
    by (auto simp: fixture_defs)
  ultimately show ?thesis using ds m by (simp add: fixture_defs build_and_sources_def)
qed

text \<open>
  C7: when the summary and the per-file diffs are read, the result has one entry for each file
  of the summary, in the order of the summary, except the files whose whole path is \<^verbatim>\<open>dist\<close> or
  \<^verbatim>\<open>bun.lock\<close>; the diff of an entry is what \<^verbatim>\<open>git.diff(["--", path])\<close> resolves to for its path.
  The comparison is equality of strings, so \<^verbatim>\<open>dist/app.js\<close> is kept.
\<close>

theorem listChanges_entries:
  assumes "simpleGit rootDir = Inr g" and "diffSummary g = Inr summary"
    and "\<forall>f \<in> set (files summary). file' f \<noteq> ''dist'' \<and> file' f \<noteq> ''bun.lock'' \<longrightarrow>
           diff g [''--'', file' f] = Inr (d (file' f))"
  shows "getFileChangesInDirectory simpleGit rootDir =
     Inr (map (\<lambda>p. \<lparr>fd_file = p, fd_diff = d p\<rparr>)
            (filter (\<lambda>p. p \<noteq> ''dist'' \<and> p \<noteq> ''bun.lock'') (map file' (files summary))))"
  using assms collect_diffs_all [of "files summary" g d "[]"]
  by (simp add: getFileChangesInDirectory_def in_excludeFiles)

theorem listChanges_entries_witness:
  "fixture_simpleGit build_and_sources ''repo'' = Inr (fixture_git build_and_sources)
   \<and> diffSummary (fixture_git build_and_sources) = Inr build_and_sources
   \<and> diff (fixture_git build_and_sources) [''--'', ''dist/app.js''] = Inr ''diff --dist/app.js''
   \<and> diff (fixture_git build_and_sources) [''--'', ''src/tools.ts''] = Inr ''diff --src/tools.ts''
   \<and> getFileChangesInDirectory (fixture_simpleGit build_and_sources) ''repo''
     = Inr [\<lparr>fd_file = ''dist/app.js'', fd_diff = ''diff --dist/app.js''\<rparr>,
            \<lparr>fd_file = ''src/tools.ts'', fd_diff = ''diff --src/tools.ts''\<rparr>]"
proof -
  have pre: "fixture_simpleGit build_and_sources ''repo'' = Inr (fixture_git build_and_sources)"
    "diffSummary (fixture_git build_and_sources) = Inr build_and_sources"
    "\<forall>f \<in> set (files build_and_sources). file' f \<noteq> ''dist'' \<and> file' f \<noteq> ''bun.lock'' \<longrightarrow>
       diff (fixture_git build_and_sources) [''--'', file' f] = Inr (''diff --'' @ file' f)"
    by (simp_all add: fixture_defs build_and_sources_def)
  from listChanges_entries
    [where simpleGit = "fixture_simpleGit build_and_sources" and rootDir = "''repo''"
       and d = "\<lambda>p. ''diff --'' @ p", OF pre]
  show ?thesis by (simp add: fixture_defs build_and_sources_def)
qed

text \<open>
  C8, as stated, fails at two inputs, each by a test the code writes out.

  A title that is present and empty: line 135 is \<^verbatim>\<open>title || "Code Review"\<close>, which takes the
  default for every falsy title, so the heading is \<^verbatim>\<open># Code Review\<close> and not \<^verbatim>\<open># \<close> followed by the
  empty title.

  A content whose only heading is of level one: line 147 looks for \<^verbatim>\<open>##\<close> and for \<^verbatim>\<open>###\<close> and for
  nothing else, so \<^verbatim>\<open># Overview\<close> is a heading marker that does not keep the Summary away. The
  two levels are named one by one and level one is not among them: the heading of level one of
  the document is the title that line 137 writes itself, and a single \<^verbatim>\<open>#\<close> also stands in
  review text for things that are no heading (\<^verbatim>\<open>#include\<close>, \<^verbatim>\<open>#123\<close>). The comment of line 146
  speaks of proper formatting, not of headings, and nothing in the source says that a heading of
  level one should count.
\<close>

theorem title_and_heading_counterexample:
  "title (fixture_input (Some '''') False ''Looks good.'') = Some ''''
   \<and> writeReviewToMarkdown (fixture_env None None) (fixture_input (Some '''') False ''Looks good.'')
     = ([Mkdir ''reviews'',
         WriteFile ''reviews/code-review.md''
           ''# Code Review\<newline>\<newline>---\<newline>\<newline>Looks good.\<newline>\<newline>## Summary\<newline>\<newline>This review was generated automatically. Please review the suggestions and apply them as appropriate.\<newline>''],
        Inr (Success ''reviews/code-review.md''
               ''Code review successfully written to reviews/code-review.md'' 147))
   \<and> prefix ''# '' (reviewContent (fixture_input (Some ''Review'') False ''# Overview\<newline>Looks good.''))
   \<and> writeReviewToMarkdown (fixture_env None None)
         (fixture_input (Some ''Review'') False ''# Overview\<newline>Looks good.'')
     = ([Mkdir ''reviews'',
         WriteFile ''reviews/code-review.md''
           ''# Review\<newline>\<newline>---\<newline>\<newline># Overview\<newline>Looks good.\<newline>\<newline>## Summary\<newline>\<newline>This review was generated automatically. Please review the suggestions and apply them as appropriate.\<newline>''],
        Inr (Success ''reviews/code-review.md''
               ''Code review successfully written to reviews/code-review.md'' 153))"
  by (simp add: writeReviewToMarkdown_def try_block_def markdownContent_def write_fixture_defs)

text \<open>
  C8, amended: on success the function has called \<^verbatim>\<open>mkdir\<close> on the directory of the path and then
  \<^verbatim>\<open>writeFile\<close> on the path with exactly this document: the heading \<^verbatim>\<open># \<close> and the title, which is
  \<^verbatim>\<open>Code Review\<close> when the title is absent or empty; the line \<^verbatim>\<open>**Generated:**\<close> with the string of
  \<^verbatim>\<open>toISOString()\<close> if and only if \<^verbatim>\<open>includeTimestamp\<close> is true; the rule \<^verbatim>\<open>---\<close>; the content as
  given; and the section \<^verbatim>\<open>## Summary\<close> if and only if the content does not contain \<^verbatim>\<open>##\<close>, the
  marker of a heading of level two or deeper. The schema sets \<^verbatim>\<open>includeTimestamp\<close> to true when
  the caller leaves it out. The string of \<^verbatim>\<open>toISOString()\<close> is never empty, which is the third
  assumption.
\<close>

theorem written_document:
  assumes "snd (writeReviewToMarkdown env inp) = Inr r" and "success r"
    and "toISOString env \<noteq> ''''"
  shows "fst (writeReviewToMarkdown env inp) =
     [Mkdir (dirname env (filePath inp)),
      WriteFile (filePath inp)
        (''# ''
         @ (case title inp of None \<Rightarrow> ''Code Review'' | Some t \<Rightarrow> if t = '''' then ''Code Review'' else t)
         @ ''\<newline>\<newline>''
         @ (if includeTimestamp inp then ''**Generated:** '' @ toISOString env @ ''\<newline>\<newline>'' else '''')
         @ ''---\<newline>\<newline>''
         @ reviewContent inp
         @ (if sublist ''##'' (reviewContent inp) then ''''
            else ''\<newline>\<newline>## Summary\<newline>\<newline>This review was generated automatically. Please review the suggestions and apply them as appropriate.\<newline>''))]
   \<and> (\<forall>a i. writeMarkdownSchema a = Some i \<and> arg_includeTimestamp a = None \<longrightarrow> includeTimestamp i)"
proof
  from assms(1,2) have "mkdir env (dirname env (filePath inp)) = None"
    "writeFile env (filePath inp) (markdownContent env inp) = None"
    by (auto simp: writeReviewToMarkdown_cases split: option.splits)
  then have "fst (writeReviewToMarkdown env inp) =
     [Mkdir (dirname env (filePath inp)), WriteFile (filePath inp) (markdownContent env inp)]"
    by (simp add: writeReviewToMarkdown_cases)
  then show "fst (writeReviewToMarkdown env inp) =
     [Mkdir (dirname env (filePath inp)),
      WriteFile (filePath inp)
        (''# ''
         @ (case title inp of None \<Rightarrow> ''Code Review'' | Some t \<Rightarrow> if t = '''' then ''Code Review'' else t)
         @ ''\<newline>\<newline>''
         @ (if includeTimestamp inp then ''**Generated:** '' @ toISOString env @ ''\<newline>\<newline>'' else '''')
         @ ''---\<newline>\<newline>''
         @ reviewContent inp
         @ (if sublist ''##'' (reviewContent inp) then ''''
            else ''\<newline>\<newline>## Summary\<newline>\<newline>This review was generated automatically. Please review the suggestions and apply them as appropriate.\<newline>''))]"
    by (simp only: markdownContent_eq [OF assms(3)])
next
  show "\<forall>a i. writeMarkdownSchema a = Some i \<and> arg_includeTimestamp a = None \<longrightarrow> includeTimestamp i"
    by (auto simp: writeMarkdownSchema_def split: if_splits)
qed

theorem written_document_witness:
  "snd (writeReviewToMarkdown (fixture_env None None) (fixture_input None True ''## Notes\<newline>fine''))
     = Inr (Success ''reviews/code-review.md''
              ''Code review successfully written to reviews/code-review.md'' 74)
   \<and> success (Success ''reviews/code-review.md''
                ''Code review successfully written to reviews/code-review.md'' 74)
   \<and> toISOString (fixture_env None None) \<noteq> ''''
   \<and> fst (writeReviewToMarkdown (fixture_env None None) (fixture_input None True ''## Notes\<newline>fine''))
     = [Mkdir ''reviews'',
        WriteFile ''reviews/code-review.md''
          ''# Code Review\<newline>\<newline>**Generated:** 2025-09-20T10:30:00.000Z\<newline>\<newline>---\<newline>\<newline>## Notes\<newline>fine'']"
proof -
  have pre: "snd (writeReviewToMarkdown (fixture_env None None) (fixture_input None True ''## Notes\<newline>fine''))
     = Inr (Success ''reviews/code-review.md''
              ''Code review successfully written to reviews/code-review.md'' 74)"
    "success (Success ''reviews/code-review.md''
                ''Code review successfully written to reviews/code-review.md'' 74)"
    "toISOString (fixture_env None None) \<noteq> ''''"
    by (simp_all add: writeReviewToMarkdown_def try_block_def markdownContent_def write_fixture_defs)
  from written_document [OF pre] pre show ?thesis
    by (simp add: write_fixture_defs includes_str_sublist [symmetric])
qed

text \<open>
  C9: \<^verbatim>\<open>writeReviewToMarkdown\<close> always returns a value. When \<^verbatim>\<open>mkdir\<close> and \<^verbatim>\<open>writeFile\<close> resolve,
  the value is the success object with the path, the message and the length of the document;
  when either rejects, it is the failure object with the message of the error (or
  \<^verbatim>\<open>Unknown error occurred\<close> for a thrown value that is not an \<^verbatim>\<open>Error\<close>) and the path. The two
  functions that read the repository have no handler: the value thrown by \<^verbatim>\<open>simpleGit\<close>, by
  \<^verbatim>\<open>diffSummary()\<close>, by \<^verbatim>\<open>git.diff()\<close> or by the first \<^verbatim>\<open>git.diff(["--", path])\<close> that rejects
  in the loop is, unchanged, the outcome of the call.
\<close>

theorem failure_policies:
  "(\<exists>r. snd (writeReviewToMarkdown env inp) = Inr r) \<and>
   (mkdir env (dirname env (filePath inp)) = None \<and>
    writeFile env (filePath inp) (markdownContent env inp) = None \<longrightarrow>
      snd (writeReviewToMarkdown env inp) =
        Inr (Success (filePath inp) (''Code review successfully written to '' @ filePath inp)
               (length (markdownContent env inp)))) \<and>
   (\<forall>e. mkdir env (dirname env (filePath inp)) = Some e \<or>
        (mkdir env (dirname env (filePath inp)) = None \<and>
         writeFile env (filePath inp) (markdownContent env inp) = Some e) \<longrightarrow>
      snd (writeReviewToMarkdown env inp) =
        Inr (Failure (case e of Error msg \<Rightarrow> msg | NonError \<Rightarrow> ''Unknown error occurred'')
               (filePath inp))) \<and>
   (\<forall>e. simpleGit rootDir = Inl e \<or> (\<exists>g. simpleGit rootDir = Inr g \<and> diffSummary g = Inl e) \<longrightarrow>
      getFileChangesInDirectory simpleGit rootDir = Inl e \<and>
      generateCommitMessage simpleGit rootDir ty = Inl e) \<and>
   (\<forall>g summary e. simpleGit rootDir = Inr g \<and> diffSummary g = Inr summary \<and>
        files summary \<noteq> [] \<and> diff g [] = Inl e \<longrightarrow>
      generateCommitMessage simpleGit rootDir ty = Inl e) \<and>
   (\<forall>g summary f. simpleGit rootDir = Inr g \<and> diffSummary g = Inr summary \<and>
        f \<in> set (files summary) \<and> file' f \<notin> set excludeFiles \<and>
        isl (diff g [''--'', file' f]) \<longrightarrow>
      isl (getFileChangesInDirectory simpleGit rootDir)) \<and>
   (\<forall>g summary pre f post e. simpleGit rootDir = Inr g \<and> diffSummary g = Inr summary \<and>
        files summary = pre @ f # post \<and>
        (\<forall>h \<in> set pre. file' h \<in> set excludeFiles \<or> \<not> isl (diff g [''--'', file' h])) \<and>
        file' f \<notin> set excludeFiles \<and> diff g [''--'', file' f] = Inl e \<longrightarrow>
      getFileChangesInDirectory simpleGit rootDir = Inl e)"
proof (intro conjI)
  show "\<exists>r. snd (writeReviewToMarkdown env inp) = Inr r"
    by (simp add: writeReviewToMarkdown_cases split: option.splits)
next
  show "mkdir env (dirname env (filePath inp)) = None \<and>
    writeFile env (filePath inp) (markdownContent env inp) = None \<longrightarrow>
      snd (writeReviewToMarkdown env inp) =
        Inr (Success (filePath inp) (''Code review successfully written to '' @ filePath inp)
               (length (markdownContent env inp)))"
    by (simp add: writeReviewToMarkdown_cases)
next
  show "\<forall>e. mkdir env (dirname env (filePath inp)) = Some e \<or>
        (mkdir env (dirname env (filePath inp)) = None \<and>
         writeFile env (filePath inp) (markdownContent env inp) = Some e) \<longrightarrow>
      snd (writeReviewToMarkdown env inp) =
        Inr (Failure (case e of Error msg \<Rightarrow> msg | NonError \<Rightarrow> ''Unknown error occurred'')
               (filePath inp))"
    by (auto simp: writeReviewToMarkdown_cases)
next
  show "\<forall>e. simpleGit rootDir = Inl e \<or> (\<exists>g. simpleGit rootDir = Inr g \<and> diffSummary g = Inl e) \<longrightarrow>
      getFileChangesInDirectory simpleGit rootDir = Inl e \<and>
      generateCommitMessage simpleGit rootDir ty = Inl e"
    by (auto simp: getFileChangesInDirectory_def generateCommitMessage_def)
next
  show "\<forall>g summary e. simpleGit rootDir = Inr g \<and> diffSummary g = Inr summary \<and>
        files summary \<noteq> [] \<and> diff g [] = Inl e \<longrightarrow>
      generateCommitMessage simpleGit rootDir ty = Inl e"
    by (simp add: generateCommitMessage_def)
next
  show "\<forall>g summary f. simpleGit rootDir = Inr g \<and> diffSummary g = Inr summary \<and>
        f \<in> set (files summary) \<and> file' f \<notin> set excludeFiles \<and>
        isl (diff g [''--'', file' f]) \<longrightarrow>
      isl (getFileChangesInDirectory simpleGit rootDir)"
    using collect_diffs_failure by (auto simp: getFileChangesInDirectory_def)
next
  show "\<forall>g summary pre f post e. simpleGit rootDir = Inr g \<and> diffSummary g = Inr summary \<and>
        files summary = pre @ f # post \<and>
        (\<forall>h \<in> set pre. file' h \<in> set excludeFiles \<or> \<not> isl (diff g [''--'', file' h])) \<and>
        file' f \<notin> set excludeFiles \<and> diff g [''--'', file' f] = Inl e \<longrightarrow>
      getFileChangesInDirectory simpleGit rootDir = Inl e"
  proof (intro allI impI, elim conjE)
    fix g summary pre f post e
    assume "simpleGit rootDir = Inr g" and "diffSummary g = Inr summary"
      and fs: "files summary = pre @ f # post"
      and "\<forall>h \<in> set pre. file' h \<in> set excludeFiles \<or> \<not> isl (diff g [''--'', file' h])"
      and "file' f \<notin> set excludeFiles" and "diff g [''--'', file' f] = Inl e"
    from this(4-6) have "collect_diffs g (pre @ f # post) [] = Inl e"
      by (rule collect_diffs_first_failure)
    with \<open>simpleGit rootDir = Inr g\<close> \<open>diffSummary g = Inr summary\<close> fs
    show "getFileChangesInDirectory simpleGit rootDir = Inl e"
      by (simp add: getFileChangesInDirectory_def)
  qed
qed

theorem failure_policies_witness:
  "mkdir (fixture_env (Some (Error ''EACCES: permission denied'')) None)
      (dirname (fixture_env (Some (Error ''EACCES: permission denied'')) None)
         (filePath (fixture_input None True ''Looks good.'')))
     = Some (Error ''EACCES: permission denied'')
   \<and> snd (writeReviewToMarkdown (fixture_env (Some (Error ''EACCES: permission denied'')) None)
            (fixture_input None True ''Looks good.''))
     = Inr (Failure ''EACCES: permission denied'' ''reviews/code-review.md'')
   \<and> getFileChangesInDirectory (\<lambda>rootDir. Inl (Error ''not a git repository'')) ''/tmp''
     = Inl (Error ''not a git repository'')
   \<and> generateCommitMessage (\<lambda>rootDir. Inl (Error ''not a git repository'')) ''/tmp'' None
     = Inl (Error ''not a git repository'')
   \<and> diff failing_git [''--'', ''src/a.ts''] = Inr ''diff --src/a.ts''
   \<and> diff failing_git [''--'', ''src/b.ts''] = Inl (Error ''fatal: unable to read src/b.ts'')
   \<and> getFileChangesInDirectory (\<lambda>rootDir. Inr failing_git) ''repo''
     = Inl (Error ''fatal: unable to read src/b.ts'')"
proof -
  let ?env = "fixture_env (Some (Error ''EACCES: permission denied'')) None"
  let ?inp = "fixture_input None True ''Looks good.''"
  have mk: "mkdir ?env (dirname ?env (filePath ?inp)) = Some (Error ''EACCES: permission denied'')"
    by (simp add: write_fixture_defs)
  note all = failure_policies
    [where env = ?env and inp = ?inp
       and simpleGit = "\<lambda>rootDir. Inl (Error ''not a git repository'')" and rootDir = "''/tmp''"
       and ty = None]
  from all mk have "snd (writeReviewToMarkdown ?env ?inp)
      = Inr (Failure (case Error ''EACCES: permission denied'' of Error msg \<Rightarrow> msg
                      | NonError \<Rightarrow> ''Unknown error occurred'') (filePath ?inp))"
    by blast
  moreover from all
  have "getFileChangesInDirectory (\<lambda>rootDir. Inl (Error ''not a git repository'')) ''/tmp''
          = Inl (Error ''not a git repository'')
      \<and> generateCommitMessage (\<lambda>rootDir. Inl (Error ''not a git repository'')) ''/tmp'' None
          = Inl (Error ''not a git repository'')"
    by blast
  moreover
  let ?summary = "fixture_summary [''dist'', ''src/a.ts'', ''src/b.ts'', ''src/c.ts''] 5 2"
  let ?pre = "[\<lparr>file' = ''dist'', file_insertions = 0, file_deletions = 0\<rparr>,
               \<lparr>file' = ''src/a.ts'', file_insertions = 0, file_deletions = 0\<rparr>]"
  let ?f = "\<lparr>file' = ''src/b.ts'', file_insertions = 0, file_deletions = 0\<rparr>"
  let ?post = "[\<lparr>file' = ''src/c.ts'', file_insertions = 0, file_deletions = 0\<rparr>]"
  have d: "diff failing_git [''--'', ''src/a.ts''] = Inr ''diff --src/a.ts''"
    "diff failing_git [''--'', ''src/b.ts''] = Inl (Error ''fatal: unable to read src/b.ts'')"
    by (simp_all add: failing_git_def)
  note per_file = failure_policies
    [where env = ?env and inp = ?inp
       and simpleGit = "\<lambda>rootDir. Inr failing_git" and rootDir = "''repo''" and ty = None,
     THEN conjunct2, THEN conjunct2, THEN conjunct2, THEN conjunct2, THEN conjunct2,
     THEN conjunct2, rule_format,
     where g = failing_git and summary = ?summary and pre = ?pre and f = ?f and post = ?post]
  have "getFileChangesInDirectory (\<lambda>rootDir. Inr failing_git) ''repo''
      = Inl (Error ''fatal: unable to read src/b.ts'')"
    by (rule per_file) (simp add: failing_git_def fixture_defs excludeFiles_def)
  ultimately show ?thesis using mk d by (simp add: write_fixture_defs)
qed

end
